theory Spec2Isabelle
  imports Complex_Main "HOL-Library.Word"
begin

section \<open>GenerationConfig: data model\<close>

text \<open>
  The source file is \<^verbatim>\<open>src/cpp/src/generation_config.cpp\<close>. The class declaration
  (\<^verbatim>\<open>generation_config.hpp\<close>) is not among the sources; the field types are
  the ones the member functions use them at: \<^verbatim>\<open>size_t\<close> for the counters
  (compared with \<^verbatim>\<open>SIZE_MAX\<close>), \<^verbatim>\<open>float\<close> for the penalties and sampling parameters,
  \<^verbatim>\<open>int64_t\<close> for \<^verbatim>\<open>eos_token_id\<close> (compared with \<^verbatim>\<open>-1\<close>), \<^verbatim>\<open>bool\<close> for the flags.
\<close>

datatype StopCriteria = EARLY | HEURISTIC | NEVER

text \<open>
  A C++ \<^verbatim>\<open>float\<close> is read only through ordered comparisons with the constants
  \<^verbatim>\<open>0\<close> and \<^verbatim>\<open>1.0f\<close>. Every value is a NaN, an infinity or a finite number (both zeros
  are the number 0); a comparison with a NaN operand is false.
\<close>

datatype float32 = FNaN | FNegInf | FFinite real | FPosInf

fun float_gt :: "float32 \<Rightarrow> real \<Rightarrow> bool" where
  "float_gt FNaN k = False"
| "float_gt FNegInf k = False"
| "float_gt (FFinite r) k = (r > k)"
| "float_gt FPosInf k = True"

fun float_le :: "float32 \<Rightarrow> real \<Rightarrow> bool" where
  "float_le FNaN k = False"
| "float_le FNegInf k = True"
| "float_le (FFinite r) k = (r \<le> k)"
| "float_le FPosInf k = False"

text \<open>
  \<^verbatim>\<open>size_t\<close> is an unsigned integer whose width depends on the platform. The record
  takes its representation as the type parameter \<open>'s\<close>; every operation below uses it
  at \<open>'w word\<close>, for an arbitrary width \<open>'w\<close>.
\<close>

record 's GenerationConfig =
  max_new_tokens :: 's
  max_length :: 's
  ignore_eos :: bool
  num_beam_groups :: 's
  num_beams :: 's
  diversity_penalty :: float32
  length_penalty :: float32
  num_return_sequences :: 's
  no_repeat_ngram_size :: 's
  stop_criteria :: StopCriteria
  temperature :: float32
  top_p :: float32
  top_k :: 's
  do_sample :: bool
  repetition_penalty :: float32
  eos_token_id :: "64 word"

type_synonym 'w config = "'w word GenerationConfig"

definition SIZE_MAX :: "'w::len word" where
  "SIZE_MAX = - 1"

text \<open>
  Modelled from the spec: the default member initialisers of \<^verbatim>\<open>generation_config.hpp\<close>,
  which is not among the sources; the values are the column "Default" of the table of
  fields (the "max value" of a \<^verbatim>\<open>size_t\<close> is \<^verbatim>\<open>SIZE_MAX\<close>).
\<close>

definition default_config :: "'w::len config" where
  "default_config =
     \<lparr> max_new_tokens = SIZE_MAX,
       max_length = SIZE_MAX,
       ignore_eos = False,
       num_beam_groups = 1,
       num_beams = 1,
       diversity_penalty = FFinite 0,
       length_penalty = FFinite 1,
       num_return_sequences = 1,
       no_repeat_ngram_size = 0,
       stop_criteria = HEURISTIC,
       temperature = FFinite 1,
       top_p = FFinite 1,
       top_k = SIZE_MAX,
       do_sample = False,
       repetition_penalty = FFinite 1,
       eos_token_id = - 1 \<rparr>"

section \<open>Errors\<close>

text \<open>
  Every \<^verbatim>\<open>OPENVINO_ASSERT\<close> that fails throws an exception with its own message. One
  constructor stands for each assertion of the file; the ones whose message ends with the
  offending value carry that value.
\<close>

datatype error =
    FileNotOpen string
      \<comment> \<open>Failed to open '<path>' with generation config\<close>
  | ParseError
      \<comment> \<open>thrown by \<^verbatim>\<open>nlohmann::json::parse\<close>\<close>
  | FieldTypeMismatch string
      \<comment> \<open>a recognised key whose value does not convert to the field's type\<close>
  | BeamSearchWithSampling
      \<comment> \<open>Beam search with sampling is not supported yet. ...\<close>
  | MaxNewTokensNotPositive
      \<comment> \<open>'max_new_tokens' must be greater than 0\<close>
  | MaxLengthNotPositive
      \<comment> \<open>'max_length' must be greater than 0 or 'max_new_tokens' should be defined\<close>
  | TopKNotPositive nat
      \<comment> \<open>top_k must be a strictly positive, but got <top_k>\<close>
  | TopPOutOfRange float32
      \<comment> \<open>top_p must be a positive float > 0 and < 1, but got <top_p>\<close>
  | TemperatureNotPositive float32
      \<comment> \<open>Temperature must be a strictly positive float, but got <temperature>\<close>
  | RepetitionPenaltyNotPositive float32
      \<comment> \<open>Repetition penalty must be a strictly positive float, but got <repetition_penalty>\<close>
  | IgnoreEosWithoutLimit
      \<comment> \<open>ignore_eos == true, in this case either 'max_new_tokens', or 'max_length' should be defined.\<close>
  | NoStopCondition
      \<comment> \<open>Either 'eos_token_id', or 'max_new_tokens', or 'max_length' should be defined.\<close>

section \<open>Token budget and decoding mode\<close>

text \<open>\<^verbatim>\<open>size_t GenerationConfig::get_max_new_tokens(size_t prompt_length) const\<close>\<close>

definition get_max_new_tokens :: "'w::len config \<Rightarrow> 'w word \<Rightarrow> 'w word" where
  "get_max_new_tokens c prompt_length =
     (if max_new_tokens c \<noteq> SIZE_MAX then max_new_tokens c
      else max_length c - prompt_length)"

definition is_beam_search :: "'w::len config \<Rightarrow> bool" where
  "is_beam_search c = (num_beams c > 1)"

definition is_greedy_decoding :: "'w::len config \<Rightarrow> bool" where
  "is_greedy_decoding c = (\<not> do_sample c \<and> \<not> is_beam_search c)"

definition is_multinomial :: "'w::len config \<Rightarrow> bool" where
  "is_multinomial c = do_sample c"

section \<open>Validation\<close>

text \<open>
  \<^verbatim>\<open>void GenerationConfig::validate() const\<close>: nine assertions in sequence; the first one
  whose condition is false throws, and the function returns normally when all hold.
  \<open>OPENVINO_ASSERT cond e\<close> is \<open>Inl e\<close> when \<open>cond\<close> is false.
\<close>

definition validate :: "'w::len config \<Rightarrow> error + unit" where
  "validate c =
     (if \<not> (\<not> do_sample c \<or> num_beams c = 1) then Inl BeamSearchWithSampling
      else if \<not> (max_new_tokens c > 0) then Inl MaxNewTokensNotPositive
      else if \<not> (max_new_tokens c \<noteq> SIZE_MAX \<or> max_length c > 0) then Inl MaxLengthNotPositive
      else if \<not> (\<not> do_sample c \<or> top_k c > 0) then Inl (TopKNotPositive (unat (top_k c)))
      else if \<not> (\<not> do_sample c \<or> (float_gt (top_p c) 0 \<and> float_le (top_p c) 1))
        then Inl (TopPOutOfRange (top_p c))
      else if \<not> (\<not> do_sample c \<or> float_gt (temperature c) 0)
        then Inl (TemperatureNotPositive (temperature c))
      else if \<not> float_gt (repetition_penalty c) 0
        then Inl (RepetitionPenaltyNotPositive (repetition_penalty c))
      else if \<not> (\<not> ignore_eos c \<or> max_new_tokens c \<noteq> SIZE_MAX \<or> max_length c \<noteq> SIZE_MAX)
        then Inl IgnoreEosWithoutLimit
      else if \<not> (eos_token_id c \<noteq> - 1 \<or> max_new_tokens c \<noteq> SIZE_MAX \<or> max_length c \<noteq> SIZE_MAX)
        then Inl NoStopCondition
      else Inr ())"

subsection \<open>The rules of validation, as the specification lists them\<close>

text \<open>
  The specification gives seven rules, checked in order; the fourth has three parts,
  each with its own message. A rule yields the error it reports when it is violated.
\<close>

definition rule1 :: "'w::len config \<Rightarrow> error option" where
  "rule1 c = (if do_sample c \<and> num_beams c \<noteq> 1 then Some BeamSearchWithSampling else None)"

definition rule2 :: "'w::len config \<Rightarrow> error option" where
  "rule2 c = (if max_new_tokens c = 0 then Some MaxNewTokensNotPositive else None)"

definition rule3 :: "'w::len config \<Rightarrow> error option" where
  "rule3 c =
     (if max_new_tokens c = SIZE_MAX \<and> max_length c = 0 then Some MaxLengthNotPositive
      else None)"

definition rule4 :: "'w::len config \<Rightarrow> error option" where
  "rule4 c =
     (if do_sample c then
        (if top_k c = 0 then Some (TopKNotPositive (unat (top_k c)))
         else if \<not> (float_gt (top_p c) 0 \<and> float_le (top_p c) 1)
           then Some (TopPOutOfRange (top_p c))
         else if \<not> float_gt (temperature c) 0
           then Some (TemperatureNotPositive (temperature c))
         else None)
      else None)"

definition rule5 :: "'w::len config \<Rightarrow> error option" where
  "rule5 c =
     (if \<not> float_gt (repetition_penalty c) 0
      then Some (RepetitionPenaltyNotPositive (repetition_penalty c)) else None)"

definition rule6 :: "'w::len config \<Rightarrow> error option" where
  "rule6 c =
     (if ignore_eos c \<and> max_new_tokens c = SIZE_MAX \<and> max_length c = SIZE_MAX
      then Some IgnoreEosWithoutLimit else None)"

definition rule7 :: "'w::len config \<Rightarrow> error option" where
  "rule7 c =
     (if eos_token_id c = - 1 \<and> max_new_tokens c = SIZE_MAX \<and> max_length c = SIZE_MAX
      then Some NoStopCondition else None)"

fun first_violated :: "error option list \<Rightarrow> error + unit" where
  "first_violated [] = Inr ()"
| "first_violated (None # rs) = first_violated rs"
| "first_violated (Some e # rs) = Inl e"

definition validate_spec :: "'w::len config \<Rightarrow> error + unit" where
  "validate_spec c =
     first_violated [rule1 c, rule2 c, rule3 c, rule4 c, rule5 c, rule6 c, rule7 c]"

section \<open>Filling the configuration from a source\<close>

subsection \<open>Statements that may throw\<close>

text \<open>
  Both loaders are a sequence of statements, each of which assigns one field or throws.
  A statement maps the object to \<open>Inl e\<close> (thrown, object as it was) or to \<open>Inr\<close> of the
  object after the assignment. \<open>exec\<close> runs the statements in order and stops at the first
  exception; it returns the exception, if any, with the object as the statements run so far
  have left it.
\<close>

type_synonym 'c stmt = "'c \<Rightarrow> error + 'c"

definition store :: "(('a \<Rightarrow> 'a) \<Rightarrow> 'c \<Rightarrow> 'c) \<Rightarrow> error + 'a \<Rightarrow> 'c stmt" where
  "store upd r c = (case r of Inl e \<Rightarrow> Inl e | Inr x \<Rightarrow> Inr (upd (\<lambda>_. x) c))"

fun exec :: "'c stmt list \<Rightarrow> 'c \<Rightarrow> error option \<times> 'c" where
  "exec [] c = (None, c)"
| "exec (s # ss) c = (case s c of Inl e \<Rightarrow> (Some e, c) | Inr c' \<Rightarrow> exec ss c')"

subsection \<open>Reading one parameter\<close>

text \<open>
  The helpers \<^verbatim>\<open>read_json_param\<close> and \<^verbatim>\<open>read_anymap_param\<close> (\<^verbatim>\<open>utils.hpp\<close>) and the
  conversion of a source value to a field's C++ type are not among the sources. The
  conversions are parameters of the model: one per field type, \<open>None\<close> where the value does
  not have the shape of the type.
\<close>

record ('v, 's) conversions =
  as_size_t :: "'v \<Rightarrow> 's option"
  as_float :: "'v \<Rightarrow> float32 option"
  as_bool :: "'v \<Rightarrow> bool option"
  as_int64 :: "'v \<Rightarrow> 64 word option"
  as_StopCriteria :: "'v \<Rightarrow> StopCriteria option"

text \<open>
  Modelled from the spec: \<^verbatim>\<open>read_json_param(data, name, param)\<close> of \<^verbatim>\<open>utils.hpp\<close>,
  which is not among the sources. A key that is present overwrites the parameter with the
  source's value; a key that is absent leaves it untouched; a value whose type does not
  match the field is a configuration error, not coerced. The result is the new value of
  \<^verbatim>\<open>param\<close>.
\<close>

definition read_json_param ::
    "('v \<Rightarrow> 'a option) \<Rightarrow> (string \<Rightarrow> 'v option) \<Rightarrow> string \<Rightarrow> 'a \<Rightarrow> error + 'a" where
  "read_json_param conv data name param =
     (case data name of
        None \<Rightarrow> Inr param
      | Some v \<Rightarrow> (case conv v of None \<Rightarrow> Inl (FieldTypeMismatch name) | Some x \<Rightarrow> Inr x))"

text \<open>
  Modelled from the spec: \<^verbatim>\<open>read_anymap_param(config_map, name, param)\<close> of
  \<^verbatim>\<open>utils.hpp\<close>, which is not among the sources; the same contract over the override map.
\<close>

definition read_anymap_param ::
    "('v \<Rightarrow> 'a option) \<Rightarrow> (string \<Rightarrow> 'v option) \<Rightarrow> string \<Rightarrow> 'a \<Rightarrow> error + 'a" where
  "read_anymap_param conv config_map name param =
     (case config_map name of
        None \<Rightarrow> Inr param
      | Some v \<Rightarrow> (case conv v of None \<Rightarrow> Inl (FieldTypeMismatch name) | Some x \<Rightarrow> Inr x))"

subsection \<open>The constructor from a JSON file\<close>

text \<open>
  A parsed JSON value, with the kinds of \<^verbatim>\<open>nlohmann::json::value_t\<close>. The constructor
  looks only at the members of the top-level object, and inside a member only at its kind
  and at a string or boolean payload, so arrays and objects carry no content here. A number
  of kind \<open>number_float\<close> is kept as the \<^verbatim>\<open>float\<close> it is read as.
\<close>

datatype value_t =
  null | object | array | string | boolean | number_integer | number_unsigned | number_float

datatype json =
    JNull
  | JObject
  | JArray
  | JString string
  | JBoolean bool
  | JNumberInteger "64 word"
  | JNumberUnsigned "64 word"
  | JNumberFloat float32

fun json_type :: "json \<Rightarrow> value_t" where
  "json_type JNull = null"
| "json_type JObject = object"
| "json_type JArray = array"
| "json_type (JString s) = string"
| "json_type (JBoolean b) = boolean"
| "json_type (JNumberInteger i) = number_integer"
| "json_type (JNumberUnsigned n) = number_unsigned"
| "json_type (JNumberFloat x) = number_float"

text \<open>
  The document \<^verbatim>\<open>data\<close> is the map from the keys of the top-level object to their
  values: \<^verbatim>\<open>data.contains(k)\<close> is \<open>data k \<noteq> None\<close>, and \<^verbatim>\<open>data[k]\<close> is the value
  found. (A document that is not an object contains no key: it is the empty map.)
\<close>

type_synonym json_doc = "string \<Rightarrow> json option"

text \<open>Lines 24 to 38: fourteen reads, in this order.\<close>

definition json_reads ::
    "(json, 'w word) conversions \<Rightarrow> json_doc \<Rightarrow> 'w::len config stmt list" where
  "json_reads cv data =
     [ (\<lambda>c. store max_new_tokens_update
               (read_json_param (as_size_t cv) data ''max_new_tokens'' (max_new_tokens c)) c),
       (\<lambda>c. store max_length_update
               (read_json_param (as_size_t cv) data ''max_length'' (max_length c)) c),
       (\<lambda>c. store num_beam_groups_update
               (read_json_param (as_size_t cv) data ''num_beam_groups'' (num_beam_groups c)) c),
       (\<lambda>c. store num_beams_update
               (read_json_param (as_size_t cv) data ''num_beams'' (num_beams c)) c),
       (\<lambda>c. store diversity_penalty_update
               (read_json_param (as_float cv) data ''diversity_penalty'' (diversity_penalty c)) c),
       (\<lambda>c. store length_penalty_update
               (read_json_param (as_float cv) data ''length_penalty'' (length_penalty c)) c),
       (\<lambda>c. store num_return_sequences_update
               (read_json_param (as_size_t cv) data ''num_return_sequences''
                  (num_return_sequences c)) c),
       (\<lambda>c. store no_repeat_ngram_size_update
               (read_json_param (as_size_t cv) data ''no_repeat_ngram_size''
                  (no_repeat_ngram_size c)) c),
       (\<lambda>c. store temperature_update
               (read_json_param (as_float cv) data ''temperature'' (temperature c)) c),
       (\<lambda>c. store top_p_update
               (read_json_param (as_float cv) data ''top_p'' (top_p c)) c),
       (\<lambda>c. store top_k_update
               (read_json_param (as_size_t cv) data ''top_k'' (top_k c)) c),
       (\<lambda>c. store do_sample_update
               (read_json_param (as_bool cv) data ''do_sample'' (do_sample c)) c),
       (\<lambda>c. store repetition_penalty_update
               (read_json_param (as_float cv) data ''repetition_penalty''
                  (repetition_penalty c)) c),
       (\<lambda>c. store eos_token_id_update
               (read_json_param (as_int64 cv) data ''eos_token_id'' (eos_token_id c)) c) ]"

text \<open>
  Lines 40 to 49. \<^verbatim>\<open>data["early_stopping"] == "never"\<close> holds for the string
  \<^verbatim>\<open>never\<close> only, \<^verbatim>\<open>== true\<close> and \<^verbatim>\<open>== false\<close> for that boolean only.
\<close>

definition read_early_stopping :: "json_doc \<Rightarrow> 'w::len config \<Rightarrow> 'w config" where
  "read_early_stopping data c =
     (case data ''early_stopping'' of
        None \<Rightarrow> c
      | Some v \<Rightarrow>
          (let field_type = json_type v in
           if field_type = string \<and> v = JString ''never'' then c\<lparr>stop_criteria := NEVER\<rparr>
           else if field_type = boolean \<and> v = JBoolean True then c\<lparr>stop_criteria := EARLY\<rparr>
           else if field_type = boolean \<and> v = JBoolean False
             then c\<lparr>stop_criteria := HEURISTIC\<rparr>
           else c))"

text \<open>
  The keys the constructor looks up: the fourteen names of lines 24 to 38 and
  \<^verbatim>\<open>early_stopping\<close>.
\<close>

definition json_keys :: "string list" where
  "json_keys =
     [''max_new_tokens'', ''max_length'', ''num_beam_groups'', ''num_beams'',
      ''diversity_penalty'', ''length_penalty'', ''num_return_sequences'',
      ''no_repeat_ngram_size'', ''temperature'', ''top_p'', ''top_k'', ''do_sample'',
      ''repetition_penalty'', ''eos_token_id'', ''early_stopping'']"

text \<open>
  The body of the constructor after parsing, from an object \<open>c\<close> (in the constructor, the
  default member initialisers). An exception leaves no object.
\<close>

definition load_json ::
    "(json, 'w word) conversions \<Rightarrow> 'w::len config \<Rightarrow> json_doc \<Rightarrow> error + 'w config" where
  "load_json cv c data =
     (case exec (json_reads cv data) c of
        (Some e, _) \<Rightarrow> Inl e
      | (None, c') \<Rightarrow> Inr (read_early_stopping data c'))"

text \<open>
  What the constructor finds at \<^verbatim>\<open>json_path\<close>: a file that does not open, one whose
  content does not parse, or a document.
\<close>

datatype json_file = NotOpen | Malformed | Parsed json_doc

definition GenerationConfig_from_json ::
    "(json, 'w word) conversions \<Rightarrow> string \<Rightarrow> json_file \<Rightarrow> error + 'w::len config" where
  "GenerationConfig_from_json cv json_path f =
     (case f of
        NotOpen \<Rightarrow> Inl (FileNotOpen json_path)
      | Malformed \<Rightarrow> Inl ParseError
      | Parsed data \<Rightarrow> load_json cv default_config data)"

subsection \<open>Runtime overrides\<close>

text \<open>
  \<^verbatim>\<open>void GenerationConfig::update_generation_config(const ov::AnyMap& config_map)\<close>:
  sixteen reads on the object itself. The values of the map (\<^verbatim>\<open>ov::Any\<close>) are of an
  arbitrary type \<open>'v\<close>. The result is the exception thrown, if any, and the object after
  the call.
\<close>

definition update_generation_config ::
    "('v, 'w word) conversions \<Rightarrow> 'w::len config \<Rightarrow> (string \<Rightarrow> 'v option)
       \<Rightarrow> error option \<times> 'w config" where
  "update_generation_config cv c config_map =
     exec
       [ (\<lambda>c. store max_new_tokens_update
               (read_anymap_param (as_size_t cv) config_map ''max_new_tokens''
                  (max_new_tokens c)) c),
         (\<lambda>c. store max_length_update
               (read_anymap_param (as_size_t cv) config_map ''max_length'' (max_length c)) c),
         (\<lambda>c. store ignore_eos_update
               (read_anymap_param (as_bool cv) config_map ''ignore_eos'' (ignore_eos c)) c),
         (\<lambda>c. store num_beam_groups_update
               (read_anymap_param (as_size_t cv) config_map ''num_beam_groups''
                  (num_beam_groups c)) c),
         (\<lambda>c. store num_beams_update
               (read_anymap_param (as_size_t cv) config_map ''num_beams'' (num_beams c)) c),
         (\<lambda>c. store diversity_penalty_update
               (read_anymap_param (as_float cv) config_map ''diversity_penalty''
                  (diversity_penalty c)) c),
         (\<lambda>c. store length_penalty_update
               (read_anymap_param (as_float cv) config_map ''length_penalty''
                  (length_penalty c)) c),
         (\<lambda>c. store num_return_sequences_update
               (read_anymap_param (as_size_t cv) config_map ''num_return_sequences''
                  (num_return_sequences c)) c),
         (\<lambda>c. store no_repeat_ngram_size_update
               (read_anymap_param (as_size_t cv) config_map ''no_repeat_ngram_size''
                  (no_repeat_ngram_size c)) c),
         (\<lambda>c. store stop_criteria_update
               (read_anymap_param (as_StopCriteria cv) config_map ''stop_criteria''
                  (stop_criteria c)) c),
         (\<lambda>c. store temperature_update
               (read_anymap_param (as_float cv) config_map ''temperature'' (temperature c)) c),
         (\<lambda>c. store top_p_update
               (read_anymap_param (as_float cv) config_map ''top_p'' (top_p c)) c),
         (\<lambda>c. store top_k_update
               (read_anymap_param (as_size_t cv) config_map ''top_k'' (top_k c)) c),
         (\<lambda>c. store do_sample_update
               (read_anymap_param (as_bool cv) config_map ''do_sample'' (do_sample c)) c),
         (\<lambda>c. store repetition_penalty_update
               (read_anymap_param (as_float cv) config_map ''repetition_penalty''
                  (repetition_penalty c)) c),
         (\<lambda>c. store eos_token_id_update
               (read_anymap_param (as_int64 cv) config_map ''eos_token_id''
                  (eos_token_id c)) c) ]
       c"

subsection \<open>Conversions for concrete sources\<close>

text \<open>
  One instance of the conversions for JSON values, to run the model on concrete
  documents: a value converts to a field type exactly when it has the kind of that type
  (an unsigned number also where a signed one is expected), and an unsigned number that
  does not fit a \<^verbatim>\<open>size_t\<close> does not convert.
\<close>

definition json_conversions :: "(json, 'w::len word) conversions" where
  "json_conversions =
     \<lparr> as_size_t = (\<lambda>v. case v of
          JNumberUnsigned n \<Rightarrow> if unat n < 2 ^ LENGTH('w) then Some (ucast n) else None
        | _ \<Rightarrow> None),
       as_float = (\<lambda>v. case v of JNumberFloat x \<Rightarrow> Some x | _ \<Rightarrow> None),
       as_bool = (\<lambda>v. case v of JBoolean b \<Rightarrow> Some b | _ \<Rightarrow> None),
       as_int64 = (\<lambda>v. case v of
          JNumberInteger i \<Rightarrow> Some i
        | JNumberUnsigned n \<Rightarrow> if n < 2 ^ 63 then Some n else None
        | _ \<Rightarrow> None),
       as_StopCriteria = (\<lambda>v. None) \<rparr>"

text \<open>
  A value of an override map holds a C++ value of one of the field types, or of some
  other type; it converts to a field type exactly when it holds a value of that type.
\<close>

datatype 's any =
    Any_size_t 's
  | Any_float float32
  | Any_bool bool
  | Any_int64 "64 word"
  | Any_StopCriteria StopCriteria
  | Any_other

definition any_conversions :: "('s any, 's) conversions" where
  "any_conversions =
     \<lparr> as_size_t = (\<lambda>v. case v of Any_size_t n \<Rightarrow> Some n | _ \<Rightarrow> None),
       as_float = (\<lambda>v. case v of Any_float x \<Rightarrow> Some x | _ \<Rightarrow> None),
       as_bool = (\<lambda>v. case v of Any_bool b \<Rightarrow> Some b | _ \<Rightarrow> None),
       as_int64 = (\<lambda>v. case v of Any_int64 i \<Rightarrow> Some i | _ \<Rightarrow> None),
       as_StopCriteria = (\<lambda>v. case v of Any_StopCriteria s \<Rightarrow> Some s | _ \<Rightarrow> None) \<rparr>"

section \<open>Properties\<close>

subsection \<open>Auxiliary facts\<close>

lemmas rule_defs = rule1_def rule2_def rule3_def rule4_def rule5_def rule6_def rule7_def

lemmas load_defs = load_json_def json_reads_def store_def read_json_param_def
  read_early_stopping_def default_config_def json_conversions_def

lemmas update_defs = update_generation_config_def store_def read_anymap_param_def
  default_config_def any_conversions_def

lemma word_pos_iff: "(0 < (x :: 'w::len word)) = (x \<noteq> 0)"
  by (simp add: word_neq_0_conv)

lemma validate_first_violated:
  fixes c :: "'w::len config"
  shows "validate c
           = first_violated [rule1 c, rule2 c, rule3 c, rule4 c, rule5 c, rule6 c, rule7 c]"
  by (simp add: validate_def rule_defs word_pos_iff)

lemma isl_first_violated: "isl (first_violated rs) \<longleftrightarrow> (\<exists>r \<in> set rs. r \<noteq> None)"
  by (induction rs rule: first_violated.induct) simp_all

lemma store_Inr_iff: "store upd r c = Inr c' \<longleftrightarrow> (\<exists>x. r = Inr x \<and> c' = upd (\<lambda>_. x) c)"
  by (auto simp: store_def split: sum.splits)

lemma exec_Nil_iff: "exec [] c = (None, c') \<longleftrightarrow> c' = c"
  by auto

lemma exec_Cons_iff:
  "exec (s # ss) c = (None, c') \<longleftrightarrow> (\<exists>c1. s c = Inr c1 \<and> exec ss c1 = (None, c'))"
  by (auto split: sum.splits)

lemma exec_field:
  assumes "\<And>s a b. s \<in> set ss \<Longrightarrow> s a = Inr b \<Longrightarrow> g b = g a"
  shows "g (snd (exec ss c)) = g c"
  using assms
proof (induction ss arbitrary: c)
  case Nil
  show ?case by simp
next
  case (Cons s ss)
  show ?case
  proof (cases "s c")
    case (Inl e)
    then show ?thesis by simp
  next
    case (Inr c1)
    have "g (snd (exec ss c1)) = g c1"
    proof (rule Cons.IH)
      fix t a b
      assume "t \<in> set ss" and "t a = Inr b"
      then show "g b = g a" using Cons.prems [of t a b] by simp
    qed
    moreover have "g c1 = g c"
      by (rule Cons.prems [of s]) (simp_all add: Inr)
    ultimately show ?thesis by (simp add: Inr)
  qed
qed

lemma not_in_Cons: "k \<notin> set (a # as) \<longleftrightarrow> k \<noteq> a \<and> k \<notin> set as"
  by simp

lemma fun_upd_other_key: "k \<noteq> name \<Longrightarrow> (data(k := x)) name = data name"
  by simp

lemma read_json_param_present:
  "read_json_param conv data name param = Inr x \<Longrightarrow> data name = Some v \<Longrightarrow> conv v = Some x"
  by (auto simp: read_json_param_def split: option.splits)

lemma read_json_param_other_key:
  "k \<noteq> name \<Longrightarrow>
     read_json_param conv (data(k := x)) name = read_json_param conv data name"
  by (rule ext) (simp add: read_json_param_def)

lemma load_json_Inr:
  "load_json cv c data = Inr c' \<longleftrightarrow>
     (\<exists>c1. exec (json_reads cv data) c = (None, c1) \<and> c' = read_early_stopping data c1)"
  by (auto simp: load_json_def split: prod.splits option.splits)

lemma load_json_Inl:
  "load_json cv c data = Inl e \<longleftrightarrow> fst (exec (json_reads cv data) c) = Some e"
  by (auto simp: load_json_def split: prod.splits option.splits)

lemma json_reads_other_key:
  assumes "k \<notin> set json_keys"
  shows "json_reads cv (data(k := x)) = json_reads cv data"
proof -
  from assms have ne:
    "k \<noteq> ''max_new_tokens''" "k \<noteq> ''max_length''" "k \<noteq> ''num_beam_groups''"
    "k \<noteq> ''num_beams''" "k \<noteq> ''diversity_penalty''" "k \<noteq> ''length_penalty''"
    "k \<noteq> ''num_return_sequences''" "k \<noteq> ''no_repeat_ngram_size''" "k \<noteq> ''temperature''"
    "k \<noteq> ''top_p''" "k \<noteq> ''top_k''" "k \<noteq> ''do_sample''" "k \<noteq> ''repetition_penalty''"
    "k \<noteq> ''eos_token_id''"
    unfolding json_keys_def not_in_Cons by - ((elim conjE, assumption)+)
  show ?thesis
    unfolding json_reads_def by (simp only: ne [THEN read_json_param_other_key])
qed

lemma read_early_stopping_other_key:
  assumes "k \<notin> set json_keys"
  shows "read_early_stopping (data(k := x)) = read_early_stopping data"
proof -
  from assms have ne: "k \<noteq> ''early_stopping''"
    unfolding json_keys_def not_in_Cons by (elim conjE)
  show ?thesis
    by (rule ext) (simp only: read_early_stopping_def fun_upd_other_key [OF ne])
qed

lemma json_reads_early_stopping:
  "json_reads cv (data(''early_stopping'' := x)) = json_reads cv data"
  by (simp add: json_reads_def read_json_param_def)

lemma json_reads_keep_stop_criteria:
  "stop_criteria (snd (exec (json_reads cv data) c)) = stop_criteria c"
  by (rule exec_field [where g = stop_criteria]) (auto simp: json_reads_def store_Inr_iff)

lemma json_reads_keep_ignore_eos:
  "ignore_eos (snd (exec (json_reads cv data) c)) = ignore_eos c"
  by (rule exec_field [where g = ignore_eos]) (auto simp: json_reads_def store_Inr_iff)

subsection \<open>Decoding mode of a validated configuration\<close>

text \<open>
  C1. For every configuration on which \<open>validate\<close> succeeds, exactly one of
  \<open>is_greedy_decoding\<close>, \<open>is_beam_search\<close> and \<open>is_multinomial\<close> is true: read as
  numbers, the three booleans add up to 1.
\<close>

theorem validated_mode_unique:
  fixes c :: "'w::len config"
  assumes "validate c = Inr ()"
  shows "(of_bool (is_greedy_decoding c) + of_bool (is_beam_search c)
            + of_bool (is_multinomial c) :: nat) = 1"
proof -
  from assms have excl: "\<not> do_sample c \<or> num_beams c = 1"
    by (simp add: validate_def split: if_splits)
  show ?thesis
  proof (cases "do_sample c")
    case True
    with excl have "num_beams c = 1" by simp
    with True show ?thesis
      by (simp add: is_greedy_decoding_def is_beam_search_def is_multinomial_def)
  next
    case False
    then show ?thesis
      by (simp add: is_greedy_decoding_def is_beam_search_def is_multinomial_def)
  qed
qed

theorem validated_mode_unique_witness:
  "validate ((default_config :: 64 config)\<lparr>max_new_tokens := 20, num_beams := 4\<rparr>) = Inr () \<and>
   \<not> is_greedy_decoding ((default_config :: 64 config)\<lparr>max_new_tokens := 20, num_beams := 4\<rparr>) \<and>
   is_beam_search ((default_config :: 64 config)\<lparr>max_new_tokens := 20, num_beams := 4\<rparr>) \<and>
   \<not> is_multinomial ((default_config :: 64 config)\<lparr>max_new_tokens := 20, num_beams := 4\<rparr>)"
proof -
  let ?c = "(default_config :: 64 config)\<lparr>max_new_tokens := 20, num_beams := 4\<rparr>"
  have v: "validate ?c = Inr ()"
    by (simp add: validate_def default_config_def SIZE_MAX_def)
  from validated_mode_unique [OF v] v show ?thesis
    by (simp add: is_greedy_decoding_def is_beam_search_def is_multinomial_def
        default_config_def)
qed

subsection \<open>Token budget\<close>

text \<open>
  C2. For every prompt length, \<open>get_max_new_tokens\<close> returns \<open>max_new_tokens\<close> whenever
  that field is not the sentinel \<open>SIZE_MAX\<close>, whatever \<open>max_length\<close> holds (it takes
  priority), and returns \<open>max_length - prompt_length\<close> otherwise.
\<close>

theorem get_max_new_tokens_priority:
  fixes c :: "'w::len config"
  shows "(max_new_tokens c \<noteq> SIZE_MAX \<longrightarrow>
            (\<forall>ml. get_max_new_tokens (c\<lparr>max_length := ml\<rparr>) prompt_length = max_new_tokens c)) \<and>
         (max_new_tokens c = SIZE_MAX \<longrightarrow>
            get_max_new_tokens c prompt_length = max_length c - prompt_length)"
  by (simp add: get_max_new_tokens_def)

theorem get_max_new_tokens_priority_witness:
  "max_new_tokens ((default_config :: 64 config)\<lparr>max_new_tokens := 50\<rparr>) \<noteq> SIZE_MAX \<and>
   get_max_new_tokens ((default_config :: 64 config)\<lparr>max_new_tokens := 50, max_length := 7\<rparr>) 10
     = 50 \<and>
   max_new_tokens ((default_config :: 64 config)\<lparr>max_length := 100\<rparr>) = SIZE_MAX \<and>
   get_max_new_tokens ((default_config :: 64 config)\<lparr>max_length := 100\<rparr>) 30 = 70"
proof -
  let ?a = "(default_config :: 64 config)\<lparr>max_new_tokens := 50\<rparr>"
  let ?b = "(default_config :: 64 config)\<lparr>max_length := 100\<rparr>"
  have set: "max_new_tokens ?a \<noteq> SIZE_MAX"
    by (simp add: SIZE_MAX_def)
  have unset: "max_new_tokens ?b = SIZE_MAX"
    by (simp add: default_config_def)
  from get_max_new_tokens_priority [where c = ?a and prompt_length = 10]
       get_max_new_tokens_priority [where c = ?b and prompt_length = 30]
       set unset
  show ?thesis by simp
qed

subsection \<open>The rules that \<open>validate\<close> checks\<close>

text \<open>
  C3. \<open>validate\<close> checks exactly the seven rules of the specification, in the order
  stated there, and fails with the error of the first rule that is violated: it is the
  function \<open>validate_spec\<close>, which runs through \<open>rule1\<close> to \<open>rule7\<close> in order.
\<close>

theorem validate_checks_seven_rules_in_order:
  fixes c :: "'w::len config"
  shows "validate c = validate_spec c"
  unfolding validate_spec_def by (rule validate_first_violated)

theorem validate_checks_seven_rules_in_order_witness:
  "validate ((default_config :: 64 config)
      \<lparr>do_sample := True, num_beams := 2, repetition_penalty := FFinite 0\<rparr>)
     = Inl BeamSearchWithSampling \<and>
   rule5 ((default_config :: 64 config)
      \<lparr>do_sample := True, num_beams := 2, repetition_penalty := FFinite 0\<rparr>)
     = Some (RepetitionPenaltyNotPositive (FFinite 0))"
  using validate_checks_seven_rules_in_order
          [of "(default_config :: 64 config)
                 \<lparr>do_sample := True, num_beams := 2, repetition_penalty := FFinite 0\<rparr>"]
  by (simp add: validate_spec_def rule_defs default_config_def SIZE_MAX_def)

text \<open>
  C4. The checks on \<open>top_k\<close>, \<open>top_p\<close> and \<open>temperature\<close> apply only when
  \<open>do_sample\<close> is true. With \<open>do_sample\<close> false the outcome of \<open>validate\<close> does not
  depend on the three fields and is never one of their errors; with \<open>do_sample\<close> true,
  \<open>validate\<close> succeeds only if \<open>top_k > 0\<close>, \<open>0 < top_p \<le> 1\<close> and
  \<open>temperature > 0\<close>.
\<close>

theorem sampling_checks_only_when_sampling:
  fixes c :: "'w::len config"
  shows "(\<not> do_sample c \<longrightarrow>
            validate (c\<lparr>top_k := k, top_p := p, temperature := t\<rparr>) = validate c \<and>
            (\<forall>n. validate c \<noteq> Inl (TopKNotPositive n)) \<and>
            (\<forall>x. validate c \<noteq> Inl (TopPOutOfRange x)) \<and>
            (\<forall>x. validate c \<noteq> Inl (TemperatureNotPositive x))) \<and>
         (do_sample c \<and> validate c = Inr () \<longrightarrow>
            0 < top_k c \<and> float_gt (top_p c) 0 \<and> float_le (top_p c) 1 \<and>
            float_gt (temperature c) 0)"
  by (simp add: validate_def split: if_splits)

theorem sampling_checks_only_when_sampling_witness:
  "validate ((default_config :: 64 config)\<lparr>max_new_tokens := 20, top_p := FFinite (3 / 2)\<rparr>)
     = Inr () \<and>
   validate ((default_config :: 64 config)
      \<lparr>max_new_tokens := 20, top_p := FFinite (3 / 2), do_sample := True\<rparr>)
     = Inl (TopPOutOfRange (FFinite (3 / 2))) \<and>
   validate ((default_config :: 64 config)
      \<lparr>max_new_tokens := 20, top_k := 40, do_sample := True\<rparr>) = Inr () \<and>
   0 < top_k ((default_config :: 64 config)
      \<lparr>max_new_tokens := 20, top_k := 40, do_sample := True\<rparr>)"
  using sampling_checks_only_when_sampling
          [where c = "(default_config :: 64 config)\<lparr>max_new_tokens := 20\<rparr>"
             and k = SIZE_MAX and p = "FFinite (3 / 2)" and t = "FFinite 1"]
        sampling_checks_only_when_sampling
          [where c = "(default_config :: 64 config)
                 \<lparr>max_new_tokens := 20, top_k := 40, do_sample := True\<rparr>"]
  by (simp add: validate_def default_config_def SIZE_MAX_def word_pos_iff)

subsection \<open>Loading from a JSON document\<close>

text \<open>
  C5. When the document has a member \<^verbatim>\<open>early_stopping\<close> and the load returns a
  configuration, \<open>stop_criteria\<close> is \<open>NEVER\<close> for the string \<^verbatim>\<open>never\<close>,
  \<open>EARLY\<close> for the boolean true, \<open>HEURISTIC\<close> for the boolean false, and its prior
  value for any other encoding; and whether the load raises an error, and which one, does
  not depend on what the member holds.
\<close>

theorem early_stopping_decoding:
  fixes c :: "'w::len config"
  shows "(load_json cv c data = Inr c' \<and> data ''early_stopping'' = Some v \<longrightarrow>
            stop_criteria c' =
              (if v = JString ''never'' then NEVER
               else if v = JBoolean True then EARLY
               else if v = JBoolean False then HEURISTIC
               else stop_criteria c)) \<and>
         (\<forall>e. load_json cv c (data(''early_stopping'' := x)) = Inl e
                 \<longleftrightarrow> load_json cv c data = Inl e)"
proof (intro conjI impI allI)
  assume a: "load_json cv c data = Inr c' \<and> data ''early_stopping'' = Some v"
  then obtain c1 where run: "exec (json_reads cv data) c = (None, c1)"
    and c': "c' = read_early_stopping data c1"
    by (auto simp: load_json_Inr)
  have "stop_criteria c1 = stop_criteria c"
    using json_reads_keep_stop_criteria [of cv data c] run by simp
  then show "stop_criteria c' =
              (if v = JString ''never'' then NEVER
               else if v = JBoolean True then EARLY
               else if v = JBoolean False then HEURISTIC
               else stop_criteria c)"
    using a by (simp add: c' read_early_stopping_def)
next
  fix e
  show "load_json cv c (data(''early_stopping'' := x)) = Inl e \<longleftrightarrow> load_json cv c data = Inl e"
    by (simp add: load_json_Inl json_reads_early_stopping)
qed

theorem early_stopping_decoding_witness:
  "load_json json_conversions ((default_config :: 64 config)\<lparr>stop_criteria := EARLY\<rparr>)
     [''early_stopping'' \<mapsto> JString ''never'']
     = Inr (default_config\<lparr>stop_criteria := NEVER\<rparr>) \<and>
   load_json json_conversions (default_config :: 64 config)
     [''early_stopping'' \<mapsto> JBoolean True]
     = Inr (default_config\<lparr>stop_criteria := EARLY\<rparr>) \<and>
   load_json json_conversions ((default_config :: 64 config)\<lparr>stop_criteria := EARLY\<rparr>)
     [''early_stopping'' \<mapsto> JBoolean False]
     = Inr (default_config\<lparr>stop_criteria := HEURISTIC\<rparr>) \<and>
   load_json json_conversions ((default_config :: 64 config)\<lparr>stop_criteria := EARLY\<rparr>)
     [''early_stopping'' \<mapsto> JString ''maybe'']
     = Inr (default_config\<lparr>stop_criteria := EARLY\<rparr>) \<and>
   load_json json_conversions ((default_config :: 64 config)\<lparr>stop_criteria := EARLY\<rparr>)
     [''early_stopping'' \<mapsto> JNumberUnsigned 1]
     = Inr (default_config\<lparr>stop_criteria := EARLY\<rparr>)"
  using early_stopping_decoding
          [of json_conversions "(default_config :: 64 config)\<lparr>stop_criteria := EARLY\<rparr>"
              "[''early_stopping'' \<mapsto> JString ''maybe'']"
              "(default_config :: 64 config)\<lparr>stop_criteria := EARLY\<rparr>"
              "JString ''maybe''" None]
  by (simp add: load_defs)

text \<open>
  The constructor makes no read for \<^verbatim>\<open>ignore_eos\<close> (the comment at line 26 says
  why) nor for \<^verbatim>\<open>stop_criteria\<close>: a document that sets both leaves both fields at
  their defaults.
\<close>

theorem from_json_ignore_eos_counterexample:
  "GenerationConfig_from_json json_conversions ''generation_config.json''
     (Parsed [''ignore_eos'' \<mapsto> JBoolean True, ''stop_criteria'' \<mapsto> JString ''NEVER''])
     = Inr (default_config :: 64 config) \<and>
   ignore_eos (default_config :: 64 config) = False \<and>
   stop_criteria (default_config :: 64 config) = HEURISTIC"
  by (simp add: GenerationConfig_from_json_def load_json_def json_reads_def store_def
      read_json_param_def read_early_stopping_def default_config_def)

text \<open>
  C6 (amended). The load recognises exactly fourteen field names, all of the table but
  \<^verbatim>\<open>ignore_eos\<close> and \<^verbatim>\<open>stop_criteria\<close>, and the alias
  \<^verbatim>\<open>early_stopping\<close>. Whenever it returns a configuration, each of the fourteen
  fields whose key is present holds the source's value, converted to the type of the field;
  \<open>ignore_eos\<close> keeps its prior value; \<open>stop_criteria\<close> keeps its prior value unless
  \<^verbatim>\<open>early_stopping\<close> is present; and a key outside \<open>json_keys\<close> changes nothing.
\<close>

theorem load_json_recognised_keys:
  fixes c :: "'w::len config"
  assumes "load_json cv c data = Inr c'"
  shows
    "(\<forall>v. data ''max_new_tokens'' = Some v \<longrightarrow> as_size_t cv v = Some (max_new_tokens c')) \<and>
     (\<forall>v. data ''max_length'' = Some v \<longrightarrow> as_size_t cv v = Some (max_length c')) \<and>
     (\<forall>v. data ''num_beam_groups'' = Some v \<longrightarrow> as_size_t cv v = Some (num_beam_groups c')) \<and>
     (\<forall>v. data ''num_beams'' = Some v \<longrightarrow> as_size_t cv v = Some (num_beams c')) \<and>
     (\<forall>v. data ''diversity_penalty'' = Some v \<longrightarrow> as_float cv v = Some (diversity_penalty c')) \<and>
     (\<forall>v. data ''length_penalty'' = Some v \<longrightarrow> as_float cv v = Some (length_penalty c')) \<and>
     (\<forall>v. data ''num_return_sequences'' = Some v \<longrightarrow>
        as_size_t cv v = Some (num_return_sequences c')) \<and>
     (\<forall>v. data ''no_repeat_ngram_size'' = Some v \<longrightarrow>
        as_size_t cv v = Some (no_repeat_ngram_size c')) \<and>
     (\<forall>v. data ''temperature'' = Some v \<longrightarrow> as_float cv v = Some (temperature c')) \<and>
     (\<forall>v. data ''top_p'' = Some v \<longrightarrow> as_float cv v = Some (top_p c')) \<and>
     (\<forall>v. data ''top_k'' = Some v \<longrightarrow> as_size_t cv v = Some (top_k c')) \<and>
     (\<forall>v. data ''do_sample'' = Some v \<longrightarrow> as_bool cv v = Some (do_sample c')) \<and>
     (\<forall>v. data ''repetition_penalty'' = Some v \<longrightarrow>
        as_float cv v = Some (repetition_penalty c')) \<and>
     (\<forall>v. data ''eos_token_id'' = Some v \<longrightarrow> as_int64 cv v = Some (eos_token_id c')) \<and>
     ignore_eos c' = ignore_eos c \<and>
     (data ''early_stopping'' = None \<longrightarrow> stop_criteria c' = stop_criteria c) \<and>
     (\<forall>k x. k \<notin> set json_keys \<longrightarrow> load_json cv c (data(k := x)) = load_json cv c data)"
proof -
  from assms obtain c1 where run: "exec (json_reads cv data) c = (None, c1)"
    and c': "c' = read_early_stopping data c1"
    by (auto simp: load_json_Inr)
  have same:
    "max_new_tokens c' = max_new_tokens c1" "max_length c' = max_length c1"
    "num_beam_groups c' = num_beam_groups c1" "num_beams c' = num_beams c1"
    "diversity_penalty c' = diversity_penalty c1" "length_penalty c' = length_penalty c1"
    "num_return_sequences c' = num_return_sequences c1"
    "no_repeat_ngram_size c' = no_repeat_ngram_size c1"
    "temperature c' = temperature c1" "top_p c' = top_p c1" "top_k c' = top_k c1"
    "do_sample c' = do_sample c1" "repetition_penalty c' = repetition_penalty c1"
    "eos_token_id c' = eos_token_id c1" "ignore_eos c' = ignore_eos c1"
    by (simp_all add: c' read_early_stopping_def Let_def split: option.splits)
  have reads:
    "(\<forall>v. data ''max_new_tokens'' = Some v \<longrightarrow> as_size_t cv v = Some (max_new_tokens c1)) \<and>
     (\<forall>v. data ''max_length'' = Some v \<longrightarrow> as_size_t cv v = Some (max_length c1)) \<and>
     (\<forall>v. data ''num_beam_groups'' = Some v \<longrightarrow> as_size_t cv v = Some (num_beam_groups c1)) \<and>
     (\<forall>v. data ''num_beams'' = Some v \<longrightarrow> as_size_t cv v = Some (num_beams c1)) \<and>
     (\<forall>v. data ''diversity_penalty'' = Some v \<longrightarrow> as_float cv v = Some (diversity_penalty c1)) \<and>
     (\<forall>v. data ''length_penalty'' = Some v \<longrightarrow> as_float cv v = Some (length_penalty c1)) \<and>
     (\<forall>v. data ''num_return_sequences'' = Some v \<longrightarrow>
        as_size_t cv v = Some (num_return_sequences c1)) \<and>
     (\<forall>v. data ''no_repeat_ngram_size'' = Some v \<longrightarrow>
        as_size_t cv v = Some (no_repeat_ngram_size c1)) \<and>
     (\<forall>v. data ''temperature'' = Some v \<longrightarrow> as_float cv v = Some (temperature c1)) \<and>
     (\<forall>v. data ''top_p'' = Some v \<longrightarrow> as_float cv v = Some (top_p c1)) \<and>
     (\<forall>v. data ''top_k'' = Some v \<longrightarrow> as_size_t cv v = Some (top_k c1)) \<and>
     (\<forall>v. data ''do_sample'' = Some v \<longrightarrow> as_bool cv v = Some (do_sample c1)) \<and>
     (\<forall>v. data ''repetition_penalty'' = Some v \<longrightarrow>
        as_float cv v = Some (repetition_penalty c1)) \<and>
     (\<forall>v. data ''eos_token_id'' = Some v \<longrightarrow> as_int64 cv v = Some (eos_token_id c1))"
    using run unfolding json_reads_def
    by (clarsimp simp: exec_Cons_iff exec_Nil_iff store_Inr_iff simp del: exec.simps)
       (intro conjI allI impI; erule (1) read_json_param_present)
  have eos: "ignore_eos c1 = ignore_eos c"
    using json_reads_keep_ignore_eos [of cv data c] run by simp
  have stop: "data ''early_stopping'' = None \<longrightarrow> stop_criteria c' = stop_criteria c"
    using json_reads_keep_stop_criteria [of cv data c] run
    by (simp add: c' read_early_stopping_def)
  have other: "\<forall>k x. k \<notin> set json_keys \<longrightarrow> load_json cv c (data(k := x)) = load_json cv c data"
  proof (intro allI impI)
    fix k x
    assume k: "k \<notin> set json_keys"
    show "load_json cv c (data(k := x)) = load_json cv c data"
      unfolding load_json_def json_reads_other_key [OF k] read_early_stopping_other_key [OF k]
      by (rule refl)
  qed
  from reads eos stop other show ?thesis
    by (simp only: same) simp
qed

theorem load_json_recognised_keys_witness:
  "load_json json_conversions (default_config :: 64 config)
     [''top_k'' \<mapsto> JNumberUnsigned 40, ''do_sample'' \<mapsto> JBoolean True,
      ''temperature'' \<mapsto> JNumberFloat (FFinite (1 / 2)), ''seed'' \<mapsto> JNumberUnsigned 7]
     = Inr (default_config\<lparr>temperature := FFinite (1 / 2), top_k := 40, do_sample := True\<rparr>) \<and>
   ''seed'' \<notin> set json_keys"
proof -
  let ?doc = "[''top_k'' \<mapsto> JNumberUnsigned 40, ''do_sample'' \<mapsto> JBoolean True,
      ''temperature'' \<mapsto> JNumberFloat (FFinite (1 / 2)), ''seed'' \<mapsto> JNumberUnsigned 7]"
  let ?c' = "(default_config :: 64 config)
               \<lparr>temperature := FFinite (1 / 2), top_k := 40, do_sample := True\<rparr>"
  have run: "load_json json_conversions (default_config :: 64 config) ?doc = Inr ?c'"
    by (simp add: load_defs)
  have key: "''seed'' \<notin> set json_keys"
    by (simp add: json_keys_def)
  from load_json_recognised_keys [OF run] run key show ?thesis
    by simp
qed

subsection \<open>Runtime overrides\<close>

text \<open>
  C7. Applying an override map leaves every field whose key is absent from the map
  unchanged, for every base configuration and every map, also when a read throws on the
  way.
\<close>

theorem update_generation_config_frame:
  fixes c :: "'w::len config"
  assumes "update_generation_config cv c config_map = (r, c')"
  shows
    "(config_map ''max_new_tokens'' = None \<longrightarrow> max_new_tokens c' = max_new_tokens c) \<and>
     (config_map ''max_length'' = None \<longrightarrow> max_length c' = max_length c) \<and>
     (config_map ''ignore_eos'' = None \<longrightarrow> ignore_eos c' = ignore_eos c) \<and>
     (config_map ''num_beam_groups'' = None \<longrightarrow> num_beam_groups c' = num_beam_groups c) \<and>
     (config_map ''num_beams'' = None \<longrightarrow> num_beams c' = num_beams c) \<and>
     (config_map ''diversity_penalty'' = None \<longrightarrow> diversity_penalty c' = diversity_penalty c) \<and>
     (config_map ''length_penalty'' = None \<longrightarrow> length_penalty c' = length_penalty c) \<and>
     (config_map ''num_return_sequences'' = None \<longrightarrow>
        num_return_sequences c' = num_return_sequences c) \<and>
     (config_map ''no_repeat_ngram_size'' = None \<longrightarrow>
        no_repeat_ngram_size c' = no_repeat_ngram_size c) \<and>
     (config_map ''stop_criteria'' = None \<longrightarrow> stop_criteria c' = stop_criteria c) \<and>
     (config_map ''temperature'' = None \<longrightarrow> temperature c' = temperature c) \<and>
     (config_map ''top_p'' = None \<longrightarrow> top_p c' = top_p c) \<and>
     (config_map ''top_k'' = None \<longrightarrow> top_k c' = top_k c) \<and>
     (config_map ''do_sample'' = None \<longrightarrow> do_sample c' = do_sample c) \<and>
     (config_map ''repetition_penalty'' = None \<longrightarrow>
        repetition_penalty c' = repetition_penalty c) \<and>
     (config_map ''eos_token_id'' = None \<longrightarrow> eos_token_id c' = eos_token_id c)"
proof -
  have c': "c' = snd (update_generation_config cv c config_map)"
    using assms by simp
  show ?thesis
    unfolding c' update_generation_config_def
    by (intro conjI impI;
        rule exec_field [where g = max_new_tokens] exec_field [where g = max_length]
          exec_field [where g = ignore_eos] exec_field [where g = num_beam_groups]
          exec_field [where g = num_beams] exec_field [where g = diversity_penalty]
          exec_field [where g = length_penalty] exec_field [where g = num_return_sequences]
          exec_field [where g = no_repeat_ngram_size] exec_field [where g = stop_criteria]
          exec_field [where g = temperature] exec_field [where g = top_p]
          exec_field [where g = top_k] exec_field [where g = do_sample]
          exec_field [where g = repetition_penalty] exec_field [where g = eos_token_id];
        auto simp: store_Inr_iff read_anymap_param_def)
qed

theorem update_generation_config_frame_witness:
  "update_generation_config any_conversions
     ((default_config :: 64 config)\<lparr>temperature := FFinite 1\<rparr>)
     [''top_k'' \<mapsto> Any_size_t 40]
     = (None, default_config\<lparr>temperature := FFinite 1, top_k := 40\<rparr>) \<and>
   temperature ((default_config :: 64 config)\<lparr>temperature := FFinite 1, top_k := 40\<rparr>)
     = FFinite 1 \<and>
   update_generation_config any_conversions (default_config :: 64 config)
     [''top_k'' \<mapsto> Any_size_t 40, ''top_p'' \<mapsto> Any_bool True, ''do_sample'' \<mapsto> Any_bool True]
     = (Some (FieldTypeMismatch ''top_p''), default_config)"
proof -
  let ?m = "[''top_k'' \<mapsto> Any_size_t (40 :: 64 word)]"
  let ?c = "(default_config :: 64 config)\<lparr>temperature := FFinite 1\<rparr>"
  have run: "update_generation_config any_conversions ?c ?m = (None, ?c\<lparr>top_k := 40\<rparr>)"
    by (simp add: update_defs)
  have absent: "?m ''temperature'' = None"
    by simp
  from update_generation_config_frame [OF run] run absent show ?thesis
    by (simp add: update_defs)
qed

subsection \<open>Greedy decoding\<close>

text \<open>
  A beam width of zero is not greater than one, so a configuration without sampling and
  with \<open>num_beams = 0\<close> is greedy, and it passes validation.
\<close>

theorem is_greedy_decoding_counterexample:
  "validate ((default_config :: 64 config)\<lparr>max_new_tokens := 20, num_beams := 0\<rparr>) = Inr () \<and>
   is_greedy_decoding ((default_config :: 64 config)\<lparr>max_new_tokens := 20, num_beams := 0\<rparr>) \<and>
   \<not> (\<not> do_sample ((default_config :: 64 config)\<lparr>max_new_tokens := 20, num_beams := 0\<rparr>) \<and>
      num_beams ((default_config :: 64 config)\<lparr>max_new_tokens := 20, num_beams := 0\<rparr>) = 1)"
  by (simp add: validate_def is_greedy_decoding_def is_beam_search_def default_config_def
      SIZE_MAX_def)

text \<open>
  C8 (amended). For every configuration, validated or not, \<open>is_greedy_decoding\<close> is
  true if and only if \<open>do_sample\<close> is false and \<open>num_beams\<close> is at most 1; where
  \<open>num_beams\<close> is not zero, that is: if and only if \<open>do_sample\<close> is false and
  \<open>num_beams\<close> equals 1.
\<close>

theorem is_greedy_decoding_iff:
  fixes c :: "'w::len config"
  shows "(is_greedy_decoding c \<longleftrightarrow> \<not> do_sample c \<and> num_beams c \<le> 1) \<and>
         (num_beams c \<noteq> 0 \<longrightarrow> (is_greedy_decoding c \<longleftrightarrow> \<not> do_sample c \<and> num_beams c = 1))"
proof -
  have "num_beams c \<le> 1 \<longleftrightarrow> num_beams c = 0 \<or> num_beams c = 1"
    by (metis word_le_0_iff word_less_1 order_le_less word_zero_le)
  then show ?thesis
    by (auto simp: is_greedy_decoding_def is_beam_search_def not_less)
qed

theorem is_greedy_decoding_iff_witness:
  "num_beams ((default_config :: 64 config)\<lparr>num_beams := 1\<rparr>) \<noteq> 0 \<and>
   is_greedy_decoding ((default_config :: 64 config)\<lparr>num_beams := 1\<rparr>) \<and>
   \<not> is_greedy_decoding ((default_config :: 64 config)\<lparr>num_beams := 2\<rparr>)"
  using is_greedy_decoding_iff [of "(default_config :: 64 config)\<lparr>num_beams := 1\<rparr>"]
        is_greedy_decoding_iff [of "(default_config :: 64 config)\<lparr>num_beams := 2\<rparr>"]
  by (simp add: default_config_def is_greedy_decoding_def is_beam_search_def)

subsection \<open>Wrap-around of the token budget\<close>

text \<open>
  C9. When \<open>max_new_tokens\<close> is the sentinel and the prompt is longer than
  \<open>max_length\<close>, \<open>get_max_new_tokens\<close> returns \<open>max_length - prompt_length\<close> reduced
  modulo \<open>2 ^ w\<close>, where \<open>w\<close> is the width of \<^verbatim>\<open>size_t\<close>: the value
  \<open>2 ^ w - (prompt_length - max_length)\<close>, which is not zero. Nothing is clamped and
  nothing is raised.
\<close>

theorem get_max_new_tokens_wraps:
  fixes c :: "'w::len config"
  assumes "max_new_tokens c = SIZE_MAX" and "max_length c < prompt_length"
  shows "uint (get_max_new_tokens c prompt_length)
           = (uint (max_length c) - uint prompt_length) mod 2 ^ LENGTH('w) \<and>
         unat (get_max_new_tokens c prompt_length)
           = 2 ^ LENGTH('w) - (unat prompt_length - unat (max_length c)) \<and>
         get_max_new_tokens c prompt_length \<noteq> 0"
proof -
  have r: "get_max_new_tokens c prompt_length = max_length c - prompt_length"
    using assms(1) by (simp add: get_max_new_tokens_def)
  have lt: "unat (max_length c) < unat prompt_length"
    using assms(2) by (simp add: word_less_nat_alt)
  have bound: "unat prompt_length < 2 ^ LENGTH('w)"
    by (rule unsigned_less)
  have "unat (max_length c - prompt_length)
          = unat (max_length c) + 2 ^ LENGTH('w) - unat prompt_length"
    using lt by (simp add: unat_sub_if')
  also have "\<dots> = 2 ^ LENGTH('w) - (unat prompt_length - unat (max_length c))"
    using lt bound by simp
  finally have u: "unat (max_length c - prompt_length)
          = 2 ^ LENGTH('w) - (unat prompt_length - unat (max_length c))" .
  have nz: "max_length c - prompt_length \<noteq> 0"
    using assms(2) by auto
  show ?thesis
    unfolding r using u nz by (simp add: uint_word_ariths)
qed

theorem get_max_new_tokens_wraps_witness:
  "max_new_tokens ((default_config :: 64 config)\<lparr>max_length := 5\<rparr>) = SIZE_MAX \<and>
   max_length ((default_config :: 64 config)\<lparr>max_length := 5\<rparr>) < 7 \<and>
   unat (get_max_new_tokens ((default_config :: 64 config)\<lparr>max_length := 5\<rparr>) 7)
     = 18446744073709551614"
proof -
  let ?c = "(default_config :: 64 config)\<lparr>max_length := 5\<rparr>"
  have h1: "max_new_tokens ?c = SIZE_MAX" by (simp add: default_config_def)
  have h2: "max_length ?c < 7" by simp
  from get_max_new_tokens_wraps [OF h1 h2] h1 h2 show ?thesis by simp
qed

subsection \<open>Fields that \<open>validate\<close> does not read\<close>

text \<open>
  C10. \<open>validate\<close> raises an error if and only if one of the seven rules is violated,
  and its outcome does not depend on \<open>num_beam_groups\<close>, \<open>diversity_penalty\<close>,
  \<open>length_penalty\<close>, \<open>num_return_sequences\<close>, \<open>no_repeat_ngram_size\<close> and
  \<open>stop_criteria\<close>: two configurations that differ only there get the same result.
\<close>

theorem validate_ignores_beam_group_fields:
  fixes c :: "'w::len config"
  shows "validate (c\<lparr>num_beam_groups := a, diversity_penalty := b, length_penalty := d,
                     num_return_sequences := e, no_repeat_ngram_size := f,
                     stop_criteria := g\<rparr>) = validate c \<and>
         (isl (validate c) \<longleftrightarrow>
            (\<exists>r \<in> set [rule1 c, rule2 c, rule3 c, rule4 c, rule5 c, rule6 c, rule7 c].
               r \<noteq> None))"
proof
  show "validate (c\<lparr>num_beam_groups := a, diversity_penalty := b, length_penalty := d,
                     num_return_sequences := e, no_repeat_ngram_size := f,
                     stop_criteria := g\<rparr>) = validate c"
    by (simp add: validate_def)
  show "isl (validate c) \<longleftrightarrow>
          (\<exists>r \<in> set [rule1 c, rule2 c, rule3 c, rule4 c, rule5 c, rule6 c, rule7 c].
             r \<noteq> None)"
    unfolding validate_first_violated by (rule isl_first_violated)
qed

theorem validate_ignores_beam_group_fields_witness:
  "validate ((default_config :: 64 config)
      \<lparr>max_new_tokens := 20, num_beam_groups := 0, num_return_sequences := 0\<rparr>) = Inr () \<and>
   validate ((default_config :: 64 config)
      \<lparr>num_beam_groups := 0, num_return_sequences := 0\<rparr>) = Inl NoStopCondition \<and>
   validate (default_config :: 64 config) = Inl NoStopCondition"
  using validate_ignores_beam_group_fields
          [where c = "(default_config :: 64 config)\<lparr>max_new_tokens := 20\<rparr>"
             and a = 0 and b = "FFinite 0" and d = "FFinite 1" and e = 0 and f = 0
             and g = HEURISTIC]
        validate_ignores_beam_group_fields
          [where c = "default_config :: 64 config" and a = 0 and b = "FFinite 0"
             and d = "FFinite 1" and e = 0 and f = 0 and g = HEURISTIC]
  by (simp add: validate_def rule_defs default_config_def SIZE_MAX_def word_pos_iff)

end
